theory Spec2Isabelle
  imports Main "HOL-Library.Sublist"
begin

section \<open>Pointers and objects\<close>

text \<open>
  An object pointer is \<open>None\<close> for \<open>nullptr\<close> and \<open>Some a\<close> for the object at
  address \<open>a\<close>. Objects created with \<open>new\<close> live in a list, the address of an object being
  its position in that list, so that every allocation returns an address no earlier object has.
\<close>

type_synonym addr = nat
type_synonym ptr = "addr option"

section \<open>Component (Component.cpp)\<close>

text \<open>
  The fields of the base class: the back-reference \<open>parrentEntity\<close> and \<open>index\<close>.
  A derived component type is an extension of this record, and the member functions below
  are defined on every extension, as the derived classes inherit them.
\<close>

record Component =
  parrentEntity :: ptr
  index :: int

text \<open>
  \<open>Component::Component()\<close>. The constant \<open>UNINDEXED\<close> is declared in Component.h,
  which is not among the sources; it is taken as a parameter.
\<close>

definition Component_ctor :: "int \<Rightarrow> Component" where
  "Component_ctor UNINDEXED = \<lparr>parrentEntity = None, index = UNINDEXED\<rparr>"

text \<open>The hooks \<open>Added\<close>, \<open>Removed\<close> and \<open>Update\<close> have empty bodies and return \<open>void\<close>.\<close>

definition Added :: "'a Component_scheme \<Rightarrow> 'a Component_scheme" where
  "Added c = c"

definition Removed :: "'a Component_scheme \<Rightarrow> 'a Component_scheme" where
  "Removed c = c"

definition Update :: "'a Component_scheme \<Rightarrow> 'a Component_scheme" where
  "Update c = c"

text \<open>
  \<open>Component::SetEntiy\<close>: returns at once when the back-reference is already set, and
  stores the argument otherwise.
\<close>

definition SetEntiy :: "ptr \<Rightarrow> 'a Component_scheme \<Rightarrow> 'a Component_scheme" where
  "SetEntiy newParrentEntity c =
     (if parrentEntity c \<noteq> None then c
      else c\<lparr>parrentEntity := newParrentEntity\<rparr>)"

text \<open>A sequence of calls of \<open>SetEntiy\<close> on one component, in order.\<close>

fun SetEntiy_calls :: "ptr list \<Rightarrow> 'a Component_scheme \<Rightarrow> 'a Component_scheme" where
  "SetEntiy_calls [] c = c"
| "SetEntiy_calls (p # ps) c = SetEntiy_calls ps (SetEntiy p c)"

section \<open>Transform (Transform.h)\<close>

text \<open>
  A \<open>float\<close> object either holds a value or is indeterminate, as a local variable declared
  without an initialiser is until something is stored in it. The type \<open>'f\<close> of the values is
  left open: no arithmetic on them is modelled.
\<close>

datatype 'f float_obj = Val 'f | Indeterminate

datatype 'f XMFLOAT3 = XMFLOAT3 "'f float_obj" "'f float_obj" "'f float_obj"

text \<open>
  The data members of \<open>Transform\<close>, in the order of the header. \<open>'m\<close> is \<open>XMFLOAT4X4\<close>;
  \<open>parrent\<close> points to another transform.
\<close>

record ('f, 'm) Transform =
  parrent :: ptr
  isDirty :: bool
  position :: "'f XMFLOAT3"
  rotation :: "'f XMFLOAT3"
  scale :: "'f XMFLOAT3"
  worldMatrix :: 'm

text \<open>
  Modelled from the spec: the bodies of the four setters are in Transform.cpp, which is not
  among the sources. The spec has the cached world matrix "invalidated by a boolean dirty
  flag on any setter"; the header says the flag "is set to true when we change information
  about the transform".
\<close>

definition SetPosition :: "'f XMFLOAT3 \<Rightarrow> ('f, 'm) Transform \<Rightarrow> ('f, 'm) Transform" where
  "SetPosition newPos t = t\<lparr>position := newPos, isDirty := True\<rparr>"

definition SetRotation :: "'f XMFLOAT3 \<Rightarrow> ('f, 'm) Transform \<Rightarrow> ('f, 'm) Transform" where
  "SetRotation newRot t = t\<lparr>rotation := newRot, isDirty := True\<rparr>"

definition SetScale :: "'f XMFLOAT3 \<Rightarrow> ('f, 'm) Transform \<Rightarrow> ('f, 'm) Transform" where
  "SetScale newScale t = t\<lparr>scale := newScale, isDirty := True\<rparr>"

definition SetParrent :: "ptr \<Rightarrow> ('f, 'm) Transform \<Rightarrow> ('f, 'm) Transform" where
  "SetParrent newParrent t = t\<lparr>parrent := newParrent, isDirty := True\<rparr>"

text \<open>
  Modelled from the spec: the walk of the parent chain made by \<open>RecalculateWorldMatrix\<close>
  (Transform.cpp, not among the sources). It starts from the matrix of the transform itself
  and multiplies in the matrix of each ancestor in turn. \<open>deref\<close> reads the transform a
  pointer points to (\<open>None\<close> for a pointer to no transform), \<open>own\<close> builds the matrix of one
  transform from its position, rotation and scale, and \<open>mul\<close> multiplies two matrices; the
  matrix arithmetic itself is floating point and stays a parameter. The spec has "no cycle
  detection", so on a cyclic chain the walk does not end: its value is then \<open>None\<close>.
\<close>

partial_function (option) walk_parents ::
  "('m \<Rightarrow> 'm \<Rightarrow> 'm) \<Rightarrow> (('f, 'm) Transform \<Rightarrow> 'm) \<Rightarrow> (addr \<Rightarrow> ('f, 'm) Transform option)
     \<Rightarrow> ptr \<Rightarrow> 'm \<Rightarrow> 'm option" where
  "walk_parents mul own deref p acc =
     (case p of
        None \<Rightarrow> Some acc
      | Some a \<Rightarrow>
          (case deref a of
             None \<Rightarrow> None
           | Some pt \<Rightarrow> walk_parents mul own deref (parrent pt) (mul acc (own pt))))"

text \<open>
  Modelled from the spec: \<open>RecalculateWorldMatrix\<close>, "recomputed lazily by walking the
  parent chain at most once per query". It returns the world matrix together with the
  transform as the call leaves it. A clean transform is answered from the cache; a dirty one
  makes one walk, stores the result and clears the flag.
\<close>

definition RecalculateWorldMatrix ::
  "('m \<Rightarrow> 'm \<Rightarrow> 'm) \<Rightarrow> (('f, 'm) Transform \<Rightarrow> 'm) \<Rightarrow> (addr \<Rightarrow> ('f, 'm) Transform option)
     \<Rightarrow> ('f, 'm) Transform \<Rightarrow> ('m \<times> ('f, 'm) Transform) option" where
  "RecalculateWorldMatrix mul own deref t =
     (if \<not> isDirty t then Some (worldMatrix t, t)
      else
        (case walk_parents mul own deref (parrent t) (own t) of
           None \<Rightarrow> None
         | Some m \<Rightarrow> Some (m, t\<lparr>isDirty := False, worldMatrix := m\<rparr>)))"

text \<open>\<open>GetWorldMatrix() { return RecalculateWorldMatrix(); }\<close>, from the header.\<close>

definition GetWorldMatrix ::
  "('m \<Rightarrow> 'm \<Rightarrow> 'm) \<Rightarrow> (('f, 'm) Transform \<Rightarrow> 'm) \<Rightarrow> (addr \<Rightarrow> ('f, 'm) Transform option)
     \<Rightarrow> ('f, 'm) Transform \<Rightarrow> ('m \<times> ('f, 'm) Transform) option" where
  "GetWorldMatrix mul own deref t = RecalculateWorldMatrix mul own deref t"

text \<open>
  The parent chain that starts at pointer \<open>p\<close> and ends in \<open>nullptr\<close>, as the list of the
  addresses on it.
\<close>

fun parent_chain :: "(addr \<Rightarrow> ('f, 'm) Transform option) \<Rightarrow> ptr \<Rightarrow> addr list \<Rightarrow> bool" where
  "parent_chain deref p [] = (p = None)"
| "parent_chain deref p (a # as) =
     (p = Some a \<and> (case deref a of None \<Rightarrow> False | Some pt \<Rightarrow> parent_chain deref (parrent pt) as))"

text \<open>The product one walk builds from the transforms at the addresses \<open>as\<close>, each used once.\<close>

fun chain_product ::
  "('m \<Rightarrow> 'm \<Rightarrow> 'm) \<Rightarrow> (('f, 'm) Transform \<Rightarrow> 'm) \<Rightarrow> (addr \<Rightarrow> ('f, 'm) Transform option)
     \<Rightarrow> addr list \<Rightarrow> 'm \<Rightarrow> 'm" where
  "chain_product mul own deref [] acc = acc"
| "chain_product mul own deref (a # as) acc =
     (case deref a of
        None \<Rightarrow> acc
      | Some pt \<Rightarrow> chain_product mul own deref as (mul acc (own pt)))"

section \<open>Entity, DrawnMesh and Mesh\<close>

text \<open>
  \<open>DrawnMesh\<close> derives from \<open>Component\<close>; the loader constructs it from the renderer, a
  mesh and a material (DrawnMesh.cpp is not among the sources). Its base part is the one
  \<open>Component::Component()\<close> builds.
\<close>

record DrawnMesh = Component +
  dm_render :: ptr
  dm_mesh :: ptr
  dm_material :: ptr

definition DrawnMesh_ctor :: "int \<Rightarrow> ptr \<Rightarrow> ptr \<Rightarrow> ptr \<Rightarrow> DrawnMesh" where
  "DrawnMesh_ctor UNINDEXED r m mat =
     Component.extend (Component_ctor UNINDEXED)
       (DrawnMesh.fields r m mat)"

text \<open>A mesh object is what its constructor was given: the path of the model and the device.\<close>

datatype Mesh = Mesh string ptr

text \<open>
  Modelled from the spec: the class \<open>Entity\<close> (Entity.h and Entity.cpp are not among the
  sources). "An entity owns an ordered collection of components; each component holds a
  non-owning back-reference to its entity", and \<open>GetTransform\<close> gives access to the
  transform the entity holds. A new entity has no component, and the transform
  \<open>Transform::Transform()\<close> builds, which is a parameter.
\<close>

record ('f, 'm) Entity =
  transform :: "('f, 'm) Transform"
  components :: "DrawnMesh list"

definition Entity_ctor :: "('f, 'm) Transform \<Rightarrow> ('f, 'm) Entity" where
  "Entity_ctor t0 = \<lparr>transform = t0, components = []\<rparr>"

text \<open>
  Modelled from the spec: \<open>Entity::AddComponent\<close>, called on the entity at address
  \<open>this\<close>: the component joins the end of the collection with its back-reference set by
  \<open>SetEntiy\<close>.
\<close>

definition AddComponent :: "addr \<Rightarrow> DrawnMesh \<Rightarrow> ('f, 'm) Entity \<Rightarrow> ('f, 'm) Entity" where
  "AddComponent this c e = e\<lparr>components := components e @ [SetEntiy (Some this) c]\<rparr>"

section \<open>The C library and the stream\<close>

text \<open>A C string ends at its first NUL character.\<close>

definition c_str :: "string \<Rightarrow> string" where
  "c_str buf = takeWhile (\<lambda>c. c \<noteq> CHR 0x00) buf"

text \<open>
  \<open>strstr\<close> returns a pointer to the first occurrence of the needle, modelled by the rest of
  the string from there, or \<open>NULL\<close>.
\<close>

fun strstr :: "string \<Rightarrow> string \<Rightarrow> string option" where
  "strstr [] needle = (if needle = [] then Some [] else None)"
| "strstr (c # cs) needle =
     (if prefix needle (c # cs) then Some (c # cs) else strstr cs needle)"

definition isspace :: "char \<Rightarrow> bool" where
  "isspace c = (c \<in> {CHR '' '', CHR 0x09, CHR 0x0A, CHR 0x0B, CHR 0x0C, CHR 0x0D})"

text \<open>
  The ordinary characters at the start of a \<open>scanf\<close> format: each must be the next input
  character. The result is the input that remains, or \<open>None\<close> at a mismatch.
\<close>

fun match_literal :: "string \<Rightarrow> string \<Rightarrow> string option" where
  "match_literal [] inp = Some inp"
| "match_literal (f # fs) [] = None"
| "match_literal (f # fs) (c # cs) = (if f = c then match_literal fs cs else None)"

text \<open>
  \<open>n\<close> successive \<open>%f\<close> conversions, each after skipping white space, up to the first one
  that fails; the result lists the values assigned. The conversion of the text of one number
  belongs to the C library and is the parameter \<open>scan\<close>: it returns the value and the input
  after it, or \<open>None\<close> when the input does not start with a number.
\<close>

type_synonym 'f scanner = "string \<Rightarrow> ('f \<times> string) option"

fun conversions :: "'f scanner \<Rightarrow> nat \<Rightarrow> string \<Rightarrow> 'f list" where
  "conversions scan 0 inp = []"
| "conversions scan (Suc n) inp =
     (case scan (dropWhile isspace inp) of
        None \<Rightarrow> []
      | Some (v, inp') \<Rightarrow> v # conversions scan n inp')"

text \<open>The macro \<open>EOF\<close> of the C library.\<close>

definition EOF :: int where
  "EOF = - 1"

text \<open>
  \<open>sscanf_s(chars, "kw %f %f %f", ...)\<close>: the return value and the values assigned. The
  return value is the number of fields assigned, or \<open>EOF\<close> when the input ends before the
  first conversion: within the ordinary characters \<open>kw\<close>, or with nothing but white space
  after them.
\<close>

definition sscanf_s :: "'f scanner \<Rightarrow> string \<Rightarrow> string \<Rightarrow> int \<times> 'f list" where
  "sscanf_s scan chars kw =
     (case match_literal kw chars of
        None \<Rightarrow> (if prefix chars kw then EOF else 0, [])
      | Some inp \<Rightarrow>
          (let vs = conversions scan 3 inp
           in (if vs = [] \<and> dropWhile isspace inp = [] then EOF else int (length vs), vs)))"

text \<open>
  A local \<open>XMFLOAT3\<close> declared without initialiser, after \<open>sscanf_s\<close> has stored the values
  \<open>vs\<close> through the addresses of its \<open>x\<close>, \<open>y\<close> and \<open>z\<close>: a field nothing was stored in is
  indeterminate.
\<close>

definition assigned :: "'f list \<Rightarrow> nat \<Rightarrow> 'f float_obj" where
  "assigned vs i = (if i < length vs then Val (vs ! i) else Indeterminate)"

definition scanned_XMFLOAT3 :: "'f list \<Rightarrow> 'f XMFLOAT3" where
  "scanned_XMFLOAT3 vs = XMFLOAT3 (assigned vs 0) (assigned vs 1) (assigned vs 2)"

text \<open>
  An input file stream: the characters not yet read, as the stream delivers them, and two
  of its state bits (no read of an open file fails otherwise here, so \<open>badbit\<close> stays
  clear).
\<close>

record ifstream =
  unread :: string
  eofbit :: bool
  failbit :: bool

definition good :: "ifstream \<Rightarrow> bool" where
  "good s = (\<not> eofbit s \<and> \<not> failbit s)"

definition ifstream_open :: "string \<Rightarrow> ifstream" where
  "ifstream_open contents = \<lparr>unread = contents, eofbit = False, failbit = False\<rparr>"

text \<open>
  \<open>istream::getline(buf, n)\<close> on a good stream, with \<open>k\<close> the number of characters that
  may still be stored and \<open>acc\<close> the characters stored so far. It tests, in this order: end
  of file (sets \<open>eofbit\<close>, and \<open>failbit\<close> too when nothing was extracted); the next character
  is the newline (extracted, not stored); \<open>n - 1\<close> characters are stored (sets \<open>failbit\<close>).
\<close>

fun getline_from :: "nat \<Rightarrow> string \<Rightarrow> string \<Rightarrow> string \<times> ifstream" where
  "getline_from k acc [] =
     (acc, \<lparr>unread = [], eofbit = True, failbit = (acc = [])\<rparr>)"
| "getline_from k acc (c # cs) =
     (if c = CHR 0x0A then (acc, \<lparr>unread = cs, eofbit = False, failbit = False\<rparr>)
      else if k = 0 then (acc, \<lparr>unread = c # cs, eofbit = False, failbit = True\<rparr>)
      else getline_from (k - 1) (acc @ [c]) cs)"

definition getline :: "ifstream \<Rightarrow> nat \<Rightarrow> string \<times> ifstream" where
  "getline s n = getline_from (n - 1) [] (unread s)"

section \<open>MyDemoGame::TestLoadLevel (MyDemoGame.cpp)\<close>

text \<open>
  The members of \<open>MyDemoGame\<close> the loader uses. \<open>entity_heap\<close> and \<open>mesh_heap\<close> hold the
  objects created with \<open>new\<close>; \<open>ents\<close> and \<open>meshes\<close> are the two vectors of pointers;
  \<open>logged\<close> lists the arguments of the calls of \<open>LogText\<close>.
\<close>

record ('f, 'm) MyDemoGame =
  entity_heap :: "('f, 'm) Entity list"
  mesh_heap :: "Mesh list"
  ents :: "addr list"
  meshes :: "addr list"
  render :: ptr
  basicMaterial :: ptr
  device :: ptr
  logged :: "string list"

text \<open>What the loader takes from code that is not among the sources.\<close>

record ('f, 'm) platform =
  scan_float :: "'f scanner"
  Transform_ctor :: "('f, 'm) Transform"
  UNINDEXED :: int

text \<open>The local variables \<open>state\<close> and \<open>currentEntity\<close>, with the game object.\<close>

record ('f, 'm) loader =
  state :: int
  currentEntity :: ptr
  game :: "('f, 'm) MyDemoGame"

text \<open>\<open>std::string::substr\<close> throws when the start is beyond the end of the string.\<close>

datatype error = out_of_range

definition substr :: "string \<Rightarrow> nat \<Rightarrow> nat \<Rightarrow> error + string" where
  "substr str pos len = (if pos > length str then Inl out_of_range else Inr (take len (drop pos str)))"

text \<open>\<open>currentEntity->GetTransform().Set...(v)\<close>, for a setter \<open>f\<close> already given its argument.\<close>

definition on_transform ::
  "(('f, 'm) Transform \<Rightarrow> ('f, 'm) Transform) \<Rightarrow> addr \<Rightarrow> ('f, 'm) MyDemoGame \<Rightarrow> ('f, 'm) MyDemoGame" where
  "on_transform f a g =
     g\<lparr>entity_heap := (entity_heap g)[a := (entity_heap g ! a)\<lparr>transform := f (transform (entity_heap g ! a))\<rparr>]\<rparr>"

text \<open>
  The chain \<open>if (strstr(chars, "arena")) ... else if (strstr(chars, "pos")) ...\<close>: the new
  value of \<open>statelessRead\<close> and the state after the branch taken.
\<close>

definition stateless_directives ::
  "('f, 'm) platform \<Rightarrow> string \<Rightarrow> ('f, 'm) loader \<Rightarrow> bool \<times> ('f, 'm) loader" where
  "stateless_directives pf chars L =
     (if strstr chars ''arena'' \<noteq> None then (True, L\<lparr>state := 4\<rparr>)
      else if strstr chars ''pos'' \<noteq> None then
        (let pos = scanned_XMFLOAT3 (snd (sscanf_s (scan_float pf) chars ''pos'')) in
         (True, case currentEntity L of
                  Some e \<Rightarrow> L\<lparr>game := on_transform (SetPosition pos) e (game L)\<rparr>
                | None \<Rightarrow> L))
      else if strstr chars ''rot'' \<noteq> None then
        (let rot = scanned_XMFLOAT3 (snd (sscanf_s (scan_float pf) chars ''rot'')) in
         (True, case currentEntity L of
                  Some e \<Rightarrow> L\<lparr>game := on_transform (SetRotation rot) e (game L)\<rparr>
                | None \<Rightarrow> L))
      else if strstr chars ''scl'' \<noteq> None then
        (let scl = scanned_XMFLOAT3 (snd (sscanf_s (scan_float pf) chars ''scl'')) in
         (True, case currentEntity L of
                  Some e \<Rightarrow> L\<lparr>game := on_transform (SetScale scl) e (game L)\<rparr>
                | None \<Rightarrow> L))
      else (False, L))"

text \<open>The body of \<open>case 4\<close> once \<open>strstr(chars, "model")\<close> has succeeded, for the given tail of the line.\<close>

definition create_model :: "('f, 'm) platform \<Rightarrow> string \<Rightarrow> ('f, 'm) loader \<Rightarrow> ('f, 'm) loader" where
  "create_model pf name L =
     (let g = game L;
          modelPath = ''Assets/Models/'' @ name @ ''.obj'';
          newMesh = length (mesh_heap g);
          e = length (entity_heap g);
          ent = AddComponent e
                  (DrawnMesh_ctor (UNINDEXED pf) (render g) (Some newMesh) (basicMaterial g))
                  (Entity_ctor (Transform_ctor pf))
      in L\<lparr>currentEntity := Some e,
            game := g\<lparr>logged := logged g @ [modelPath],
                      mesh_heap := mesh_heap g @ [Mesh modelPath (device g)],
                      entity_heap := entity_heap g @ [ent],
                      ents := ents g @ [e],
                      meshes := meshes g @ [newMesh]\<rparr>\<rparr>)"

text \<open>One pass through the body of the \<open>while\<close> loop, for the line \<open>chars\<close> just read.\<close>

definition loop_body ::
  "('f, 'm) platform \<Rightarrow> string \<Rightarrow> ('f, 'm) loader \<Rightarrow> error + ('f, 'm) loader" where
  "loop_body pf chars L =
     (let line = chars;
          (statelessRead, L1) = stateless_directives pf chars L
      in if \<not> statelessRead then
           (if state L1 = 4 then
              (if strstr chars ''model'' \<noteq> None then
                 (case substr line 6 (length line) of
                    Inl ex \<Rightarrow> Inl ex
                  | Inr name \<Rightarrow> Inr (create_model pf name L1))
               else Inr L1)
            else Inr L1)
         else Inr L1)"

text \<open>
  A call of \<open>getline\<close> that leaves the stream good has extracted at least the newline, so
  the loop below ends.
\<close>

lemma getline_from_shorter:
  "getline_from k acc inp = (buf, s') \<Longrightarrow> good s' \<Longrightarrow> length (unread s') < length inp"
  by (induction k acc inp rule: getline_from.induct)
     (auto simp: good_def split: if_splits)

lemma getline_shorter:
  "getline s n = (buf, s') \<Longrightarrow> good s' \<Longrightarrow> length (unread s') < length (unread s)"
  unfolding getline_def by (rule getline_from_shorter)

text \<open>
  \<open>while (s.good()) { s.getline(chars, 400); ... }\<close>. An exception thrown in the body
  leaves the loop and the function.
\<close>

function TestLoadLevel_loop ::
  "('f, 'm) platform \<Rightarrow> ifstream \<Rightarrow> ('f, 'm) loader \<Rightarrow> error + ('f, 'm) loader" where
  "TestLoadLevel_loop pf s L =
     (if good s then
        (case getline s 400 of
           (chars, s') \<Rightarrow>
             (case loop_body pf (c_str chars) L of
                Inl ex \<Rightarrow> Inl ex
              | Inr L' \<Rightarrow> TestLoadLevel_loop pf s' L'))
      else Inr L)"
  by pat_completeness auto
termination
  by (relation "measure (\<lambda>(pf, s, L). if good s then Suc (length (unread s)) else 0)")
     (auto dest: getline_shorter [OF sym])

text \<open>
  \<open>TestLoadLevel(mapName)\<close> on the game object \<open>g\<close>. \<open>fs\<close> gives the contents of the
  files that can be opened: \<open>fs mapName = None\<close> is the case \<open>!s.is_open()\<close>. The result
  is the game object when the function returns, or the exception that leaves it.
\<close>

definition TestLoadLevel ::
  "('f, 'm) platform \<Rightarrow> (string \<Rightarrow> string option) \<Rightarrow> string \<Rightarrow> ('f, 'm) MyDemoGame
     \<Rightarrow> error + ('f, 'm) MyDemoGame" where
  "TestLoadLevel pf fs mapName g =
     (case fs mapName of
        None \<Rightarrow> Inr g
      | Some contents \<Rightarrow>
          (case TestLoadLevel_loop pf (ifstream_open contents)
                  \<lparr>state = 0, currentEntity = None, game = g\<rparr> of
             Inl ex \<Rightarrow> Inl ex
           | Inr L \<Rightarrow> Inr (game L)))"

text \<open>
  Two views of the loop, for statements about the lines of a file: the lines the successive
  calls of \<open>getline\<close> leave in \<open>chars\<close>, and the loop body run on a list of lines in order.
\<close>

function lines_read :: "ifstream \<Rightarrow> string list" where
  "lines_read s =
     (if good s then (case getline s 400 of (chars, s') \<Rightarrow> c_str chars # lines_read s')
      else [])"
  by pat_completeness auto
termination
  by (relation "measure (\<lambda>s. if good s then Suc (length (unread s)) else 0)")
     (auto dest: getline_shorter [OF sym])

fun run_lines ::
  "('f, 'm) platform \<Rightarrow> string list \<Rightarrow> ('f, 'm) loader \<Rightarrow> error + ('f, 'm) loader" where
  "run_lines pf [] L = Inr L"
| "run_lines pf (l # ls) L =
     (case loop_body pf l L of Inl ex \<Rightarrow> Inl ex | Inr L' \<Rightarrow> run_lines pf ls L')"

text \<open>
  A sample conversion for evaluating the loader on concrete files: it accepts a non-empty
  run of decimal digits and keeps its text as the value.
\<close>

definition scan_digits :: "string scanner" where
  "scan_digits inp =
     (let ds = takeWhile (\<lambda>c. c \<in> set ''0123456789'') inp
      in if ds = [] then None else Some (ds, drop (length ds) inp))"

text \<open>A transform for evaluating the functions on concrete inputs, with matrices written as strings.\<close>

definition sample_Transform :: "(string, string) Transform" where
  "sample_Transform =
     \<lparr>parrent = None, isDirty = False,
      position = XMFLOAT3 (Val ''0'') (Val ''0'') (Val ''0''),
      rotation = XMFLOAT3 (Val ''0'') (Val ''0'') (Val ''0''),
      scale = XMFLOAT3 (Val ''1'') (Val ''1'') (Val ''1''),
      worldMatrix = ''I''\<rparr>"

text \<open>A platform, a game object with one entity, a file system with one file and a loader state, for the same purpose.\<close>

definition sample_platform :: "(string, string) platform" where
  "sample_platform =
     \<lparr>scan_float = scan_digits, Transform_ctor = sample_Transform, UNINDEXED = - 1\<rparr>"

definition sample_game :: "(string, string) MyDemoGame" where
  "sample_game =
     \<lparr>entity_heap =
        [AddComponent 0 (DrawnMesh_ctor (- 1) (Some 0) (Some 0) (Some 1)) (Entity_ctor sample_Transform)],
      mesh_heap = [Mesh ''Assets/Models/helix.obj'' (Some 2)],
      ents = [0], meshes = [0],
      render = Some 0, basicMaterial = Some 1, device = Some 2, logged = []\<rparr>"

definition sample_fs :: "string \<Rightarrow> string \<Rightarrow> string option" where
  "sample_fs contents name = (if name = ''Assets/Maps/Untitled.txt'' then Some contents else None)"

definition sample_loader :: "(string, string) loader" where
  "sample_loader = \<lparr>state = 4, currentEntity = Some 0, game = sample_game\<rparr>"

text \<open>
  The leading white-space-separated token of a line, in the words of the specification of the
  level format; the loader itself does not compute it.
\<close>

definition leading_token :: "string \<Rightarrow> string" where
  "leading_token line = takeWhile (\<lambda>c. \<not> isspace c) (dropWhile isspace line)"

text \<open>
  All the white-space-separated tokens of a line, in order, likewise in the words of the
  specification; \<open>cur\<close> holds the characters of the token being read.
\<close>

fun tokens_from :: "string \<Rightarrow> string \<Rightarrow> string list" where
  "tokens_from cur [] = (if cur = [] then [] else [cur])"
| "tokens_from cur (c # cs) =
     (if isspace c then (if cur = [] then tokens_from [] cs else cur # tokens_from [] cs)
      else tokens_from (cur @ [c]) cs)"

definition tokens :: "string \<Rightarrow> string list" where
  "tokens line = tokens_from [] line"

section \<open>Properties of Component\<close>

lemma SetEntiy_set_noop: "parrentEntity c \<noteq> None \<Longrightarrow> SetEntiy p c = c"
  by (simp add: SetEntiy_def)

lemma SetEntiy_calls_set_noop: "parrentEntity c \<noteq> None \<Longrightarrow> SetEntiy_calls ps c = c"
  by (induction ps arbitrary: c) (simp_all add: SetEntiy_set_noop)

lemma SetEntiy_null_arg: "SetEntiy None c = c"
  by (simp add: SetEntiy_def)

lemma SetEntiy_calls_nulls: "SetEntiy_calls (replicate n None) c = c"
  by (induction n) (simp_all add: SetEntiy_null_arg)

lemma SetEntiy_calls_append:
  "SetEntiy_calls (ps @ qs) c = SetEntiy_calls qs (SetEntiy_calls ps c)"
  by (induction ps arbitrary: c) simp_all

text \<open>
  Claim C2. The back-reference is set exactly once. On a component whose back-reference is
  still null (as the constructor leaves it), the first call of \<open>SetEntiy\<close> that passes an
  entity pointer \<open>Some e\<close> stores it, whatever number \<open>n\<close> of calls passing \<open>nullptr\<close> came
  before; every later sequence \<open>ps\<close> of calls, whatever pointers it passes, leaves the whole
  component as that first call left it, so the stored pointer stays \<open>Some e\<close>.
\<close>

theorem SetEntiy_once:
  "parrentEntity c = None \<Longrightarrow>
     SetEntiy_calls (replicate n None @ [Some e]) c = c\<lparr>parrentEntity := Some e\<rparr> \<and>
     SetEntiy_calls (replicate n None @ Some e # ps) c = c\<lparr>parrentEntity := Some e\<rparr> \<and>
     parrentEntity (SetEntiy_calls (replicate n None @ Some e # ps) c) = Some e"
proof -
  assume null: "parrentEntity c = None"
  have first: "SetEntiy (Some e) c = c\<lparr>parrentEntity := Some e\<rparr>"
    using null by (simp add: SetEntiy_def)
  have later: "SetEntiy_calls ps (c\<lparr>parrentEntity := Some e\<rparr>) = c\<lparr>parrentEntity := Some e\<rparr>"
    by (rule SetEntiy_calls_set_noop) simp
  show ?thesis
    by (simp add: SetEntiy_calls_append SetEntiy_calls_nulls first later)
qed

theorem SetEntiy_once_witness:
  "parrentEntity (Component_ctor (-1)) = None \<and>
   SetEntiy_calls [None, Some 7, Some 9, None] (Component_ctor (-1))
     = \<lparr>parrentEntity = Some 7, index = -1\<rparr>"
  using SetEntiy_once [of "Component_ctor (-1)" 1 7 "[Some 9, None]"]
  by (simp add: Component_ctor_def SetEntiy_def)

text \<open>
  Claim C8. The hooks \<open>Added\<close>, \<open>Removed\<close> and \<open>Update\<close> of the base class are no-ops:
  the component after the call, with its back-reference, its index and whatever a derived
  class adds, is the component before the call.
\<close>

theorem hooks_noop:
  "Added c = c \<and> Removed c = c \<and> Update c = c \<and>
   parrentEntity (Added c) = parrentEntity c \<and> index (Added c) = index c \<and>
   parrentEntity (Removed c) = parrentEntity c \<and> index (Removed c) = index c \<and>
   parrentEntity (Update c) = parrentEntity c \<and> index (Update c) = index c"
  by (simp add: Added_def Removed_def Update_def)

section \<open>Properties of Transform\<close>

lemma walk_parents_chain:
  "parent_chain deref p as \<Longrightarrow>
   walk_parents mul own deref p acc = Some (chain_product mul own deref as acc)"
proof (induction as arbitrary: p acc)
  case Nil
  then show ?case by (simp add: walk_parents.simps)
next
  case (Cons a as)
  then obtain pt where p: "p = Some a" and d: "deref a = Some pt"
    and rest: "parent_chain deref (parrent pt) as"
    by (auto split: option.splits)
  have "walk_parents mul own deref p acc
          = walk_parents mul own deref (parrent pt) (mul acc (own pt))"
    by (subst walk_parents.simps) (simp add: p d)
  also have "\<dots> = Some (chain_product mul own deref as (mul acc (own pt)))"
    by (rule Cons.IH [OF rest])
  finally show ?case by (simp add: d)
qed

text \<open>
  Claim C3. Each of the four setters leaves the dirty flag set. \<open>GetWorldMatrix\<close> on a
  transform that is not dirty returns the cached matrix and leaves the transform as it is,
  whatever the parent chain. On a dirty transform whose parent chain is the addresses \<open>as\<close>
  it returns the product one walk builds, each transform of the chain entering once, stores
  it and clears the flag, so that a second query returns the same matrix from the cache
  without a walk (whatever the ancestors \<open>deref'\<close> are by then).
\<close>

theorem Transform_dirty_flag:
  "isDirty (SetPosition v t) \<and> isDirty (SetRotation v t) \<and> isDirty (SetScale v t) \<and>
   isDirty (SetParrent p t) \<and>
   (\<not> isDirty t \<longrightarrow> GetWorldMatrix mul own deref t = Some (worldMatrix t, t)) \<and>
   (isDirty t \<and> parent_chain deref (parrent t) as \<longrightarrow>
      (let m = chain_product mul own deref as (own t);
           t' = t\<lparr>isDirty := False, worldMatrix := m\<rparr>
       in GetWorldMatrix mul own deref t = Some (m, t') \<and>
          GetWorldMatrix mul own deref' t' = Some (m, t')))"
proof -
  have setters: "isDirty (SetPosition v t) \<and> isDirty (SetRotation v t) \<and>
      isDirty (SetScale v t) \<and> isDirty (SetParrent p t)"
    by (simp add: SetPosition_def SetRotation_def SetScale_def SetParrent_def)
  have clean: "\<not> isDirty t \<longrightarrow> GetWorldMatrix mul own deref t = Some (worldMatrix t, t)"
    by (simp add: GetWorldMatrix_def RecalculateWorldMatrix_def)
  have dirty: "GetWorldMatrix mul own deref t = Some (m, t\<lparr>isDirty := False, worldMatrix := m\<rparr>)"
    if "isDirty t" and "parent_chain deref (parrent t) as"
      and "m = chain_product mul own deref as (own t)" for m
    using that walk_parents_chain [of deref "parrent t" as mul own "own t"]
    by (simp add: GetWorldMatrix_def RecalculateWorldMatrix_def)
  have again: "GetWorldMatrix mul own deref' (t\<lparr>isDirty := False, worldMatrix := m\<rparr>)
      = Some (m, t\<lparr>isDirty := False, worldMatrix := m\<rparr>)" for m
    by (simp add: GetWorldMatrix_def RecalculateWorldMatrix_def)
  from setters clean dirty again show ?thesis
    by (simp add: Let_def)
qed

theorem Transform_dirty_flag_witness:
  "\<not> isDirty sample_Transform \<and>
   GetWorldMatrix (@) (\<lambda>t. ''M'') (\<lambda>a. None) sample_Transform = Some (''I'', sample_Transform) \<and>
   isDirty (SetParrent (Some 5) sample_Transform) \<and>
   parent_chain [5 \<mapsto> sample_Transform] (parrent (SetParrent (Some 5) sample_Transform)) [5] \<and>
   GetWorldMatrix (@) (\<lambda>t. ''M'') [5 \<mapsto> sample_Transform] (SetParrent (Some 5) sample_Transform)
     = Some (''MM'', sample_Transform\<lparr>parrent := Some 5, worldMatrix := ''MM''\<rparr>)"
  using Transform_dirty_flag [of "XMFLOAT3 Indeterminate Indeterminate Indeterminate" sample_Transform None "(@)" "\<lambda>t. ''M''" "\<lambda>a. None" "[]"]
    Transform_dirty_flag [of "XMFLOAT3 Indeterminate Indeterminate Indeterminate" "SetParrent (Some 5) sample_Transform" None "(@)" "\<lambda>t. ''M''"
       "[5 \<mapsto> sample_Transform]" "[5]" "\<lambda>a. None"]
  by (simp add: sample_Transform_def SetParrent_def Let_def)

section \<open>Properties of the loader\<close>

lemma strstr_None_iff: "(strstr hay needle = None) = (\<not> sublist needle hay)"
  by (induction hay) (simp_all add: sublist_Cons_right)

lemma strstr_occurs: "strstr (u @ kw @ v) kw \<noteq> None"
  unfolding strstr_None_iff by simp

lemma strstr_length: "strstr hay needle \<noteq> None \<Longrightarrow> length needle \<le> length hay"
  unfolding strstr_None_iff by (auto simp: sublist_def)

lemma loop_body_arena:
  "strstr chars ''arena'' \<noteq> None \<Longrightarrow> loop_body pf chars L = Inr (L\<lparr>state := 4\<rparr>)"
  by (simp add: loop_body_def stateless_directives_def)

lemma loop_body_pos:
  "strstr chars ''arena'' = None \<Longrightarrow> strstr chars ''pos'' \<noteq> None \<Longrightarrow>
   loop_body pf chars L =
     Inr (case currentEntity L of
            Some e \<Rightarrow> L\<lparr>game := on_transform
                       (SetPosition (scanned_XMFLOAT3 (snd (sscanf_s (scan_float pf) chars ''pos''))))
                       e (game L)\<rparr>
          | None \<Rightarrow> L)"
  by (simp add: loop_body_def stateless_directives_def Let_def)

lemma loop_body_rot:
  "strstr chars ''arena'' = None \<Longrightarrow> strstr chars ''pos'' = None \<Longrightarrow>
   strstr chars ''rot'' \<noteq> None \<Longrightarrow>
   loop_body pf chars L =
     Inr (case currentEntity L of
            Some e \<Rightarrow> L\<lparr>game := on_transform
                       (SetRotation (scanned_XMFLOAT3 (snd (sscanf_s (scan_float pf) chars ''rot''))))
                       e (game L)\<rparr>
          | None \<Rightarrow> L)"
  by (simp add: loop_body_def stateless_directives_def Let_def)

lemma loop_body_scl:
  "strstr chars ''arena'' = None \<Longrightarrow> strstr chars ''pos'' = None \<Longrightarrow>
   strstr chars ''rot'' = None \<Longrightarrow> strstr chars ''scl'' \<noteq> None \<Longrightarrow>
   loop_body pf chars L =
     Inr (case currentEntity L of
            Some e \<Rightarrow> L\<lparr>game := on_transform
                       (SetScale (scanned_XMFLOAT3 (snd (sscanf_s (scan_float pf) chars ''scl''))))
                       e (game L)\<rparr>
          | None \<Rightarrow> L)"
  by (simp add: loop_body_def stateless_directives_def Let_def)

lemma loop_body_model:
  "strstr chars ''arena'' = None \<Longrightarrow> strstr chars ''pos'' = None \<Longrightarrow>
   strstr chars ''rot'' = None \<Longrightarrow> strstr chars ''scl'' = None \<Longrightarrow>
   state L = 4 \<Longrightarrow> strstr chars ''model'' \<noteq> None \<Longrightarrow>
   loop_body pf chars L =
     (if length chars < 6 then Inl out_of_range else Inr (create_model pf (drop 6 chars) L))"
  by (simp add: loop_body_def stateless_directives_def Let_def substr_def)

text \<open>
  The line that is exactly \<open>model\<close>, read in state 4: \<open>line.substr(6, ...)\<close> starts beyond
  the end of the line and throws.
\<close>

lemma loop_body_model_alone:
  "state L = 4 \<Longrightarrow> loop_body pf ''model'' L = Inl out_of_range"
  by (simp add: loop_body_def stateless_directives_def substr_def)

lemma loop_body_other:
  "strstr chars ''arena'' = None \<Longrightarrow> strstr chars ''pos'' = None \<Longrightarrow>
   strstr chars ''rot'' = None \<Longrightarrow> strstr chars ''scl'' = None \<Longrightarrow>
   state L \<noteq> 4 \<or> strstr chars ''model'' = None \<Longrightarrow>
   loop_body pf chars L = Inr L"
  by (auto simp add: loop_body_def stateless_directives_def Let_def)

lemma run_lines_append:
  "run_lines pf (xs @ ys) L =
     (case run_lines pf xs L of Inl ex \<Rightarrow> Inl ex | Inr L' \<Rightarrow> run_lines pf ys L')"
  by (induction xs arbitrary: L) (simp_all split: sum.splits)

lemma loop_run_lines: "TestLoadLevel_loop pf s L = run_lines pf (lines_read s) L"
proof (induction pf s L rule: TestLoadLevel_loop.induct)
  case (1 pf s L)
  show ?case
  proof (cases "good s")
    case False
    then show ?thesis by simp
  next
    case True
    obtain chars s' where gl: "getline s 400 = (chars, s')"
      by (cases "getline s 400")
    show ?thesis
    proof (cases "loop_body pf (c_str chars) L")
      case (Inl ex)
      with True gl show ?thesis by simp
    next
      case (Inr L')
      with True gl "1.IH" [OF True gl [symmetric] Inr] show ?thesis by simp
    qed
  qed
qed

text \<open>
  Claim C4. When the level file cannot be opened, \<open>TestLoadLevel\<close> returns normally (no
  exception leaves it) and the game object is as it was before the call: the entity and mesh
  objects with their transforms, the two vectors and the log.
\<close>

theorem open_failure_no_effect:
  "fs mapName = None \<Longrightarrow> TestLoadLevel pf fs mapName g = Inr g"
  by (simp add: TestLoadLevel_def)

theorem open_failure_no_effect_witness:
  "sample_fs ''arena'' ''Assets/Maps/Missing.txt'' = None \<and>
   TestLoadLevel sample_platform (sample_fs ''arena'') ''Assets/Maps/Missing.txt'' sample_game
     = Inr sample_game"
  using open_failure_no_effect [of "sample_fs ''arena''" "''Assets/Maps/Missing.txt''" sample_platform sample_game]
  by (simp add: sample_fs_def)

text \<open>
  Claim C5, counterexample. No token of the line \<open>position 1 2 3\<close> and no token of the line
  \<open># remodel later\<close> is a keyword, so neither matches a directive of the level format, and
  neither is ignored: the loader finds \<open>pos\<close> in the first and calls \<open>SetPosition\<close> on the
  current entity, whose position becomes indeterminate, and it finds \<open>model\<close> in the second
  and, in state 4, creates a mesh and an entity that becomes the current entity.
\<close>

theorem unrecognised_line_counterexample:
  "tokens ''position 1 2 3'' = [''position'', ''1'', ''2'', ''3''] \<and>
   leading_token ''position 1 2 3'' = ''position'' \<and>
   loop_body sample_platform ''position 1 2 3'' sample_loader
     = Inr (sample_loader
          \<lparr>game := on_transform (SetPosition (XMFLOAT3 Indeterminate Indeterminate Indeterminate))
                    0 sample_game\<rparr>) \<and>
   position (transform (entity_heap sample_game ! 0))
     = XMFLOAT3 (Val ''0'') (Val ''0'') (Val ''0'') \<and>
   position (transform (entity_heap
       (on_transform (SetPosition (XMFLOAT3 Indeterminate Indeterminate Indeterminate))
          0 sample_game) ! 0))
     = XMFLOAT3 Indeterminate Indeterminate Indeterminate \<and>
   tokens ''# remodel later'' = [''#'', ''remodel'', ''later''] \<and>
   leading_token ''# remodel later'' = ''#'' \<and>
   loop_body sample_platform ''# remodel later'' sample_loader
     = Inr (create_model sample_platform ''del later'' sample_loader) \<and>
   ents (game sample_loader) = [0] \<and>
   ents (game (create_model sample_platform ''del later'' sample_loader)) = [0, 1] \<and>
   meshes (game (create_model sample_platform ''del later'' sample_loader)) = [0, 1] \<and>
   currentEntity (create_model sample_platform ''del later'' sample_loader) = Some 1"
  by code_simp

text \<open>
  Claim C5, amended. A line in which none of the five keywords occurs anywhere, which is
  what the loader tests with \<open>strstr\<close>, is ignored: the loop body returns normally and
  leaves the loader state as it is (the game object with its entities, meshes, transforms
  and log, the current entity and \<open>state\<close>), and loading goes on with the next line as if
  the line were not there.
\<close>

theorem unrecognised_line_ignored:
  "strstr chars ''arena'' = None \<Longrightarrow> strstr chars ''pos'' = None \<Longrightarrow>
   strstr chars ''rot'' = None \<Longrightarrow> strstr chars ''scl'' = None \<Longrightarrow>
   strstr chars ''model'' = None \<Longrightarrow>
   loop_body pf chars L = Inr L \<and> run_lines pf (chars # ls) L = run_lines pf ls L"
  by (simp add: loop_body_other)

theorem unrecognised_line_ignored_witness:
  "strstr ''light 1 0 0'' ''arena'' = None \<and> strstr ''light 1 0 0'' ''pos'' = None \<and>
   strstr ''light 1 0 0'' ''rot'' = None \<and> strstr ''light 1 0 0'' ''scl'' = None \<and>
   strstr ''light 1 0 0'' ''model'' = None \<and>
   loop_body sample_platform ''light 1 0 0'' sample_loader = Inr sample_loader \<and>
   run_lines sample_platform [''light 1 0 0''] sample_loader = Inr sample_loader"
  using unrecognised_line_ignored [of "''light 1 0 0''" sample_platform sample_loader "[]"]
  by simp

lemma conversions_length: "length (conversions scan n inp) \<le> n"
  by (induction n arbitrary: inp) (auto split: option.splits)

lemma sscanf_s_count:
  "sscanf_s scan chars kw = (n, vs) \<Longrightarrow>
     length vs \<le> 3 \<and> (n = int (length vs) \<or> n = EOF \<and> vs = [])"
  using conversions_length [of scan 3]
  by (auto simp: sscanf_s_def Let_def split: option.splits if_splits)

lemma on_transform_at:
  "entity_heap (on_transform f e g)
     = (entity_heap g)[e := (entity_heap g ! e)\<lparr>transform := f (transform (entity_heap g ! e))\<rparr>]"
  by (simp add: on_transform_def)

lemma on_transform_reaches:
  "e < length (entity_heap g) \<Longrightarrow>
   transform (entity_heap (on_transform f e g) ! e) = f (transform (entity_heap g ! e))"
  by (simp add: on_transform_def)

text \<open>
  Claim C7, counterexample. The line \<open>rot pos 1 2\<close> is a \<open>rot\<close> line with malformed fields:
  its leading token is \<open>rot\<close>. The loader finds \<open>pos\<close> in it first, so the setter called on
  the current entity is \<open>SetPosition\<close>, not \<open>SetRotation\<close>: the position becomes
  indeterminate and the rotation stays as it was.
\<close>

theorem malformed_fields_counterexample:
  "leading_token ''rot pos 1 2'' = ''rot'' \<and>
   loop_body sample_platform ''rot pos 1 2'' sample_loader
     = Inr (sample_loader
          \<lparr>game := on_transform (SetPosition (XMFLOAT3 Indeterminate Indeterminate Indeterminate))
                    0 sample_game\<rparr>) \<and>
   rotation (transform (entity_heap sample_game ! 0))
     = XMFLOAT3 (Val ''0'') (Val ''0'') (Val ''0'') \<and>
   rotation (transform (entity_heap
       (on_transform (SetPosition (XMFLOAT3 Indeterminate Indeterminate Indeterminate))
          0 sample_game) ! 0))
     = XMFLOAT3 (Val ''0'') (Val ''0'') (Val ''0'') \<and>
   position (transform (entity_heap sample_game ! 0))
     = XMFLOAT3 (Val ''0'') (Val ''0'') (Val ''0'') \<and>
   position (transform (entity_heap
       (on_transform (SetPosition (XMFLOAT3 Indeterminate Indeterminate Indeterminate))
          0 sample_game) ! 0))
     = XMFLOAT3 Indeterminate Indeterminate Indeterminate"
  by code_simp

text \<open>
  Claim C7, amended. On a line that takes the \<open>pos\<close>, \<open>rot\<close> or \<open>scl\<close> branch (the keyword
  occurs anywhere in the line, and none that comes earlier in the order \<open>arena\<close>, \<open>pos\<close>,
  \<open>rot\<close>, \<open>scl\<close> does) while there is a current entity \<open>e\<close>, the loop body returns normally
  and has called the setter of that branch on the transform of \<open>e\<close> with the vector
  \<open>sscanf_s\<close> left: the entity at \<open>e\<close>, and no other, has its transform replaced by the
  result of the setter, so that its position, rotation or scale is that vector. The value
  \<open>n\<close> that \<open>sscanf_s\<close> returns, a count of at most three or \<open>EOF\<close>, does not enter the
  result. Of the vector, the fields converted hold their values and every other field, that
  is every field that failed to parse, is indeterminate.
\<close>

theorem malformed_fields_still_set:
  assumes "currentEntity L = Some e" and "strstr chars ''arena'' = None"
  shows
    "(strstr chars ''pos'' \<noteq> None \<longrightarrow>
        (let v = scanned_XMFLOAT3 (snd (sscanf_s (scan_float pf) chars ''pos''));
             g' = on_transform (SetPosition v) e (game L)
         in loop_body pf chars L = Inr (L\<lparr>game := g'\<rparr>) \<and>
            entity_heap g'
              = (entity_heap (game L))
                  [e := (entity_heap (game L) ! e)
                     \<lparr>transform := SetPosition v (transform (entity_heap (game L) ! e))\<rparr>] \<and>
            (e < length (entity_heap (game L)) \<longrightarrow>
               position (transform (entity_heap g' ! e)) = v \<and>
               isDirty (transform (entity_heap g' ! e))))) \<and>
     (strstr chars ''pos'' = None \<and> strstr chars ''rot'' \<noteq> None \<longrightarrow>
        (let v = scanned_XMFLOAT3 (snd (sscanf_s (scan_float pf) chars ''rot''));
             g' = on_transform (SetRotation v) e (game L)
         in loop_body pf chars L = Inr (L\<lparr>game := g'\<rparr>) \<and>
            entity_heap g'
              = (entity_heap (game L))
                  [e := (entity_heap (game L) ! e)
                     \<lparr>transform := SetRotation v (transform (entity_heap (game L) ! e))\<rparr>] \<and>
            (e < length (entity_heap (game L)) \<longrightarrow>
               rotation (transform (entity_heap g' ! e)) = v \<and>
               isDirty (transform (entity_heap g' ! e))))) \<and>
     (strstr chars ''pos'' = None \<and> strstr chars ''rot'' = None \<and>
      strstr chars ''scl'' \<noteq> None \<longrightarrow>
        (let v = scanned_XMFLOAT3 (snd (sscanf_s (scan_float pf) chars ''scl''));
             g' = on_transform (SetScale v) e (game L)
         in loop_body pf chars L = Inr (L\<lparr>game := g'\<rparr>) \<and>
            entity_heap g'
              = (entity_heap (game L))
                  [e := (entity_heap (game L) ! e)
                     \<lparr>transform := SetScale v (transform (entity_heap (game L) ! e))\<rparr>] \<and>
            (e < length (entity_heap (game L)) \<longrightarrow>
               scale (transform (entity_heap g' ! e)) = v \<and>
               isDirty (transform (entity_heap g' ! e))))) \<and>
     (sscanf_s (scan_float pf) chars kw = (n, vs) \<longrightarrow>
        length vs \<le> 3 \<and> (n = int (length vs) \<or> n = EOF \<and> vs = []) \<and>
        scanned_XMFLOAT3 vs = XMFLOAT3 (assigned vs 0) (assigned vs 1) (assigned vs 2) \<and>
        (\<forall>i. i < length vs \<longrightarrow> assigned vs i = Val (vs ! i)) \<and>
        (\<forall>i. length vs \<le> i \<longrightarrow> assigned vs i = Indeterminate))"
proof -
  have pos: "strstr chars ''pos'' \<noteq> None \<longrightarrow>
      (let v = scanned_XMFLOAT3 (snd (sscanf_s (scan_float pf) chars ''pos''));
           g' = on_transform (SetPosition v) e (game L)
       in loop_body pf chars L = Inr (L\<lparr>game := g'\<rparr>) \<and>
          entity_heap g'
            = (entity_heap (game L))
                [e := (entity_heap (game L) ! e)
                   \<lparr>transform := SetPosition v (transform (entity_heap (game L) ! e))\<rparr>] \<and>
          (e < length (entity_heap (game L)) \<longrightarrow>
             position (transform (entity_heap g' ! e)) = v \<and>
             isDirty (transform (entity_heap g' ! e))))"
    using assms
    by (simp add: Let_def loop_body_pos on_transform_at on_transform_reaches SetPosition_def)
  have rot: "strstr chars ''pos'' = None \<and> strstr chars ''rot'' \<noteq> None \<longrightarrow>
      (let v = scanned_XMFLOAT3 (snd (sscanf_s (scan_float pf) chars ''rot''));
           g' = on_transform (SetRotation v) e (game L)
       in loop_body pf chars L = Inr (L\<lparr>game := g'\<rparr>) \<and>
          entity_heap g'
            = (entity_heap (game L))
                [e := (entity_heap (game L) ! e)
                   \<lparr>transform := SetRotation v (transform (entity_heap (game L) ! e))\<rparr>] \<and>
          (e < length (entity_heap (game L)) \<longrightarrow>
             rotation (transform (entity_heap g' ! e)) = v \<and>
             isDirty (transform (entity_heap g' ! e))))"
    using assms
    by (simp add: Let_def loop_body_rot on_transform_at on_transform_reaches SetRotation_def)
  have scl: "strstr chars ''pos'' = None \<and> strstr chars ''rot'' = None \<and>
      strstr chars ''scl'' \<noteq> None \<longrightarrow>
      (let v = scanned_XMFLOAT3 (snd (sscanf_s (scan_float pf) chars ''scl''));
           g' = on_transform (SetScale v) e (game L)
       in loop_body pf chars L = Inr (L\<lparr>game := g'\<rparr>) \<and>
          entity_heap g'
            = (entity_heap (game L))
                [e := (entity_heap (game L) ! e)
                   \<lparr>transform := SetScale v (transform (entity_heap (game L) ! e))\<rparr>] \<and>
          (e < length (entity_heap (game L)) \<longrightarrow>
             scale (transform (entity_heap g' ! e)) = v \<and>
             isDirty (transform (entity_heap g' ! e))))"
    using assms
    by (simp add: Let_def loop_body_scl on_transform_at on_transform_reaches SetScale_def)
  have fields: "sscanf_s (scan_float pf) chars kw = (n, vs) \<longrightarrow>
      length vs \<le> 3 \<and> (n = int (length vs) \<or> n = EOF \<and> vs = []) \<and>
      scanned_XMFLOAT3 vs = XMFLOAT3 (assigned vs 0) (assigned vs 1) (assigned vs 2) \<and>
      (\<forall>i. i < length vs \<longrightarrow> assigned vs i = Val (vs ! i)) \<and>
      (\<forall>i. length vs \<le> i \<longrightarrow> assigned vs i = Indeterminate)"
    using sscanf_s_count [of "scan_float pf" chars kw n vs]
    by (simp add: scanned_XMFLOAT3_def assigned_def)
  from pos rot scl fields show ?thesis
    by (intro conjI)
qed

lemma sample_scan_rot: "sscanf_s scan_digits ''rot 4 x'' ''rot'' = (1, [''4''])"
  by code_simp

lemma sample_scan_eof: "sscanf_s scan_digits ''pos'' ''pos'' = (EOF, [])"
  by code_simp

theorem malformed_fields_still_set_witness:
  "currentEntity sample_loader = Some 0 \<and> 0 < length (entity_heap (game sample_loader)) \<and>
   strstr ''rot 4 x'' ''arena'' = None \<and>
   strstr ''rot 4 x'' ''pos'' = None \<and> strstr ''rot 4 x'' ''rot'' \<noteq> None \<and>
   sscanf_s (scan_float sample_platform) ''rot 4 x'' ''rot'' = (1, [''4'']) \<and>
   loop_body sample_platform ''rot 4 x'' sample_loader
     = Inr (sample_loader\<lparr>game := on_transform
            (SetRotation (XMFLOAT3 (Val ''4'') Indeterminate Indeterminate)) 0 sample_game\<rparr>) \<and>
   rotation (transform (entity_heap (on_transform
       (SetRotation (XMFLOAT3 (Val ''4'') Indeterminate Indeterminate)) 0 sample_game) ! 0))
     = XMFLOAT3 (Val ''4'') Indeterminate Indeterminate \<and>
   strstr ''pos'' ''arena'' = None \<and> strstr ''pos'' ''pos'' \<noteq> None \<and>
   sscanf_s (scan_float sample_platform) ''pos'' ''pos'' = (EOF, []) \<and>
   loop_body sample_platform ''pos'' sample_loader
     = Inr (sample_loader\<lparr>game := on_transform
            (SetPosition (XMFLOAT3 Indeterminate Indeterminate Indeterminate)) 0 sample_game\<rparr>) \<and>
   position (transform (entity_heap (on_transform
       (SetPosition (XMFLOAT3 Indeterminate Indeterminate Indeterminate)) 0 sample_game) ! 0))
     = XMFLOAT3 Indeterminate Indeterminate Indeterminate"
  using malformed_fields_still_set [of sample_loader 0 "''rot 4 x''" sample_platform "''rot''" 1 "[''4'']"]
    malformed_fields_still_set [of sample_loader 0 "''pos''" sample_platform "''pos''" EOF "[]"]
    sample_scan_rot sample_scan_eof
  by (simp add: sample_loader_def sample_platform_def sample_game_def scanned_XMFLOAT3_def
        assigned_def Let_def SetRotation_def SetPosition_def)





lemma loop_body_start_no_arena:
  assumes "state L \<noteq> 4" and "currentEntity L = None" and "strstr p ''arena'' = None"
  shows "loop_body pf p L = Inr L"
proof (cases "strstr p ''pos'' = None")
  case False
  with assms show ?thesis by (simp add: loop_body_pos)
next
  case pos: True
  show ?thesis
  proof (cases "strstr p ''rot'' = None")
    case False
    with assms pos show ?thesis by (simp add: loop_body_rot)
  next
    case rot: True
    show ?thesis
    proof (cases "strstr p ''scl'' = None")
      case False
      with assms pos rot show ?thesis by (simp add: loop_body_scl)
    next
      case True
      with assms pos rot show ?thesis by (simp add: loop_body_other)
    qed
  qed
qed

lemma run_lines_start_no_arena:
  "\<forall>p\<in>set pre. strstr p ''arena'' = None \<Longrightarrow> state L \<noteq> 4 \<Longrightarrow> currentEntity L = None \<Longrightarrow>
   run_lines pf pre L = Inr L"
  by (induction pre) (simp_all add: loop_body_start_no_arena)

text \<open>
  Claim C9. Let the lines read from the file be \<open>pre\<close>, then \<open>l\<close>, then \<open>post\<close>, with
  \<open>arena\<close> in no line of \<open>pre\<close>. Then after \<open>l\<close>, whatever it is and so also when it is a
  \<open>model\<close> line, the game object is the one loading began with: no entity and no mesh has
  been added and the current entity is null. Loading goes on from there with \<open>post\<close>.
\<close>

theorem model_before_arena:
  assumes "fs mapName = Some contents"
    and "lines_read (ifstream_open contents) = pre @ l # post"
    and "\<forall>p\<in>set pre. strstr p ''arena'' = None"
  shows
    "run_lines pf (pre @ [l]) \<lparr>state = 0, currentEntity = None, game = g\<rparr>
       = Inr \<lparr>state = (if strstr l ''arena'' = None then 0 else 4),
              currentEntity = None, game = g\<rparr> \<and>
     TestLoadLevel pf fs mapName g
       = (case run_lines pf post
                 \<lparr>state = (if strstr l ''arena'' = None then 0 else 4),
                  currentEntity = None, game = g\<rparr> of
            Inl ex \<Rightarrow> Inl ex
          | Inr L \<Rightarrow> Inr (game L))"
proof -
  let ?L0 = "\<lparr>state = 0, currentEntity = None, game = g\<rparr>"
  let ?L1 = "\<lparr>state = (if strstr l ''arena'' = None then 0 else 4),
              currentEntity = None, game = g\<rparr>"
  have pre: "run_lines pf pre ?L0 = Inr ?L0"
    using assms(3) by (simp add: run_lines_start_no_arena)
  have l: "loop_body pf l ?L0 = Inr ?L1"
  proof (cases "strstr l ''arena'' = None")
    case True
    then show ?thesis by (simp add: loop_body_start_no_arena)
  next
    case False
    then show ?thesis by (simp add: loop_body_arena)
  qed
  have first: "run_lines pf (pre @ [l]) ?L0 = Inr ?L1"
    by (simp add: run_lines_append pre l)
  have "TestLoadLevel_loop pf (ifstream_open contents) ?L0 = run_lines pf ((pre @ [l]) @ post) ?L0"
    by (simp only: loop_run_lines assms(2) append_assoc append.simps)
  also have "\<dots> = run_lines pf post ?L1"
    by (subst run_lines_append) (simp only: first sum.case)
  finally have "TestLoadLevel pf fs mapName g
      = (case run_lines pf post ?L1 of Inl ex \<Rightarrow> Inl ex | Inr L \<Rightarrow> Inr (game L))"
    by (simp add: TestLoadLevel_def assms(1))
  with first show ?thesis by simp
qed

lemma sample_lines:
  "lines_read (ifstream_open (''pos 1 2 3'' @ [CHR 0x0A] @ ''model cube'' @ [CHR 0x0A] @ ''arena''))
     = [''pos 1 2 3''] @ ''model cube'' # [''arena'']"
  by code_simp

theorem model_before_arena_witness:
  "sample_fs (''pos 1 2 3'' @ [CHR 0x0A] @ ''model cube'' @ [CHR 0x0A] @ ''arena'')
       ''Assets/Maps/Untitled.txt''
     = Some (''pos 1 2 3'' @ [CHR 0x0A] @ ''model cube'' @ [CHR 0x0A] @ ''arena'') \<and>
   lines_read (ifstream_open (''pos 1 2 3'' @ [CHR 0x0A] @ ''model cube'' @ [CHR 0x0A] @ ''arena''))
     = [''pos 1 2 3''] @ ''model cube'' # [''arena''] \<and>
   strstr ''pos 1 2 3'' ''arena'' = None \<and>
   run_lines sample_platform [''pos 1 2 3'', ''model cube'']
       \<lparr>state = 0, currentEntity = None, game = sample_game\<rparr>
     = Inr \<lparr>state = 0, currentEntity = None, game = sample_game\<rparr> \<and>
   TestLoadLevel sample_platform
       (sample_fs (''pos 1 2 3'' @ [CHR 0x0A] @ ''model cube'' @ [CHR 0x0A] @ ''arena''))
       ''Assets/Maps/Untitled.txt'' sample_game
     = Inr sample_game"
  using model_before_arena [of
      "sample_fs (''pos 1 2 3'' @ [CHR 0x0A] @ ''model cube'' @ [CHR 0x0A] @ ''arena'')"
      "''Assets/Maps/Untitled.txt''"
      "''pos 1 2 3'' @ [CHR 0x0A] @ ''model cube'' @ [CHR 0x0A] @ ''arena''"
      "[''pos 1 2 3'']" "''model cube''" "[''arena'']" sample_platform sample_game]
    sample_lines
  by (simp add: sample_fs_def loop_body_arena loop_body_other)

text \<open>
  Claim C1, counterexample. The file whose only line is \<open>model cube\<close> contains the
  \<open>model\<close> directive, and loading it creates no entity: the game object is unchanged. No
  \<open>arena\<close> line came before, so \<open>state\<close> is 0 and \<open>case 4\<close> is not entered.
\<close>

theorem model_line_counterexample:
  "strstr ''model cube'' ''model'' \<noteq> None \<and>
   TestLoadLevel sample_platform (sample_fs ''model cube'') ''Assets/Maps/Untitled.txt'' sample_game
     = Inr sample_game"
  by code_simp

lemma on_transform_heap:
  "entity_heap (on_transform f e g)
     = (entity_heap g)[e := (entity_heap g ! e)\<lparr>transform := f (transform (entity_heap g ! e))\<rparr>] \<and>
   ents (on_transform f e g) = ents g \<and> meshes (on_transform f e g) = meshes g \<and>
   mesh_heap (on_transform f e g) = mesh_heap g \<and> logged (on_transform f e g) = logged g"
  by (simp add: on_transform_def)

lemma create_model_fields:
  "currentEntity (create_model pf name L) = Some (length (entity_heap (game L))) \<and>
   state (create_model pf name L) = state L \<and>
   ents (game (create_model pf name L)) = ents (game L) @ [length (entity_heap (game L))] \<and>
   meshes (game (create_model pf name L)) = meshes (game L) @ [length (mesh_heap (game L))] \<and>
   mesh_heap (game (create_model pf name L))
     = mesh_heap (game L) @ [Mesh (''Assets/Models/'' @ name @ ''.obj'') (device (game L))] \<and>
   entity_heap (game (create_model pf name L))
     = entity_heap (game L) @
       [\<lparr>transform = Transform_ctor pf,
         components =
           [\<lparr>parrentEntity = Some (length (entity_heap (game L))), index = UNINDEXED pf,
             dm_render = render (game L), dm_mesh = Some (length (mesh_heap (game L))),
             dm_material = basicMaterial (game L)\<rparr>]\<rparr>]"
  by (simp add: create_model_def Let_def AddComponent_def Entity_ctor_def DrawnMesh_ctor_def
        Component_ctor_def SetEntiy_def Component.extend_def DrawnMesh.fields_def)

text \<open>
  Claim C1, amended. A line read while \<open>state\<close> is 4 (after a line with \<open>arena\<close>), in
  which \<open>model\<close> occurs and none of \<open>arena\<close>, \<open>pos\<close>, \<open>rot\<close>, \<open>scl\<close>, and which has at
  least six characters, creates a new mesh and a new entity at a fresh address, with one
  drawn-mesh component that refers to the entity and to the mesh; their addresses join the
  ends of \<open>meshes\<close> and \<open>ents\<close> and the entity becomes the current entity. A line that
  takes the \<open>pos\<close>, \<open>rot\<close> or \<open>scl\<close> branch while the current entity is \<open>e\<close> replaces the
  transform of \<open>e\<close>, and of no other entity, by the result of \<open>SetPosition\<close>,
  \<open>SetRotation\<close> or \<open>SetScale\<close> on it, and \<open>e\<close> stays the current entity. Only a line that
  creates an entity changes the current entity.
\<close>

theorem model_line_creates_current_entity:
  "(state L = 4 \<and> strstr chars ''arena'' = None \<and> strstr chars ''pos'' = None \<and>
    strstr chars ''rot'' = None \<and> strstr chars ''scl'' = None \<and>
    strstr chars ''model'' \<noteq> None \<and> 6 \<le> length chars \<longrightarrow>
      (\<exists>L'. loop_body pf chars L = Inr L' \<and>
            currentEntity L' = Some (length (entity_heap (game L))) \<and>
            ents (game L') = ents (game L) @ [length (entity_heap (game L))] \<and>
            meshes (game L') = meshes (game L) @ [length (mesh_heap (game L))] \<and>
            mesh_heap (game L')
              = mesh_heap (game L) @
                [Mesh (''Assets/Models/'' @ drop 6 chars @ ''.obj'') (device (game L))] \<and>
            entity_heap (game L')
              = entity_heap (game L) @
                [\<lparr>transform = Transform_ctor pf,
                  components =
                    [\<lparr>parrentEntity = Some (length (entity_heap (game L))),
                      index = UNINDEXED pf,
                      dm_render = render (game L),
                      dm_mesh = Some (length (mesh_heap (game L))),
                      dm_material = basicMaterial (game L)\<rparr>]\<rparr>])) \<and>
   (currentEntity L = Some e \<and> strstr chars ''arena'' = None \<and>
    (strstr chars ''pos'' \<noteq> None \<or> strstr chars ''rot'' \<noteq> None \<or> strstr chars ''scl'' \<noteq> None) \<longrightarrow>
      (\<exists>L'. loop_body pf chars L = Inr L' \<and> currentEntity L' = Some e \<and> state L' = state L \<and>
            ents (game L') = ents (game L) \<and> meshes (game L') = meshes (game L) \<and>
            entity_heap (game L')
              = (entity_heap (game L))
                  [e := (entity_heap (game L) ! e)
                     \<lparr>transform :=
                        (if strstr chars ''pos'' \<noteq> None then
                           SetPosition (scanned_XMFLOAT3 (snd (sscanf_s (scan_float pf) chars ''pos'')))
                         else if strstr chars ''rot'' \<noteq> None then
                           SetRotation (scanned_XMFLOAT3 (snd (sscanf_s (scan_float pf) chars ''rot'')))
                         else
                           SetScale (scanned_XMFLOAT3 (snd (sscanf_s (scan_float pf) chars ''scl''))))
                        (transform (entity_heap (game L) ! e))\<rparr>])) \<and>
   (loop_body pf chars L = Inr L2 \<and> currentEntity L2 \<noteq> currentEntity L \<longrightarrow>
      state L = 4 \<and> strstr chars ''arena'' = None \<and> strstr chars ''pos'' = None \<and>
      strstr chars ''rot'' = None \<and> strstr chars ''scl'' = None \<and>
      strstr chars ''model'' \<noteq> None)"
proof (intro conjI impI)
  assume h: "state L = 4 \<and> strstr chars ''arena'' = None \<and> strstr chars ''pos'' = None \<and>
    strstr chars ''rot'' = None \<and> strstr chars ''scl'' = None \<and>
    strstr chars ''model'' \<noteq> None \<and> 6 \<le> length chars"
  then have "loop_body pf chars L = Inr (create_model pf (drop 6 chars) L)"
    by (simp add: loop_body_model)
  then show "\<exists>L'. loop_body pf chars L = Inr L' \<and>
            currentEntity L' = Some (length (entity_heap (game L))) \<and>
            ents (game L') = ents (game L) @ [length (entity_heap (game L))] \<and>
            meshes (game L') = meshes (game L) @ [length (mesh_heap (game L))] \<and>
            mesh_heap (game L')
              = mesh_heap (game L) @
                [Mesh (''Assets/Models/'' @ drop 6 chars @ ''.obj'') (device (game L))] \<and>
            entity_heap (game L')
              = entity_heap (game L) @
                [\<lparr>transform = Transform_ctor pf,
                  components =
                    [\<lparr>parrentEntity = Some (length (entity_heap (game L))),
                      index = UNINDEXED pf,
                      dm_render = render (game L),
                      dm_mesh = Some (length (mesh_heap (game L))),
                      dm_material = basicMaterial (game L)\<rparr>]\<rparr>]"
    using create_model_fields [of pf "drop 6 chars" L] by simp
next
  assume h: "currentEntity L = Some e \<and> strstr chars ''arena'' = None \<and>
    (strstr chars ''pos'' \<noteq> None \<or> strstr chars ''rot'' \<noteq> None \<or> strstr chars ''scl'' \<noteq> None)"
  let ?f = "if strstr chars ''pos'' \<noteq> None then
              SetPosition (scanned_XMFLOAT3 (snd (sscanf_s (scan_float pf) chars ''pos'')))
            else if strstr chars ''rot'' \<noteq> None then
              SetRotation (scanned_XMFLOAT3 (snd (sscanf_s (scan_float pf) chars ''rot'')))
            else
              SetScale (scanned_XMFLOAT3 (snd (sscanf_s (scan_float pf) chars ''scl'')))"
  have "loop_body pf chars L = Inr (L\<lparr>game := on_transform ?f e (game L)\<rparr>)"
  proof (cases "strstr chars ''pos'' = None")
    case False
    with h show ?thesis by (simp add: loop_body_pos)
  next
    case pos: True
    show ?thesis
    proof (cases "strstr chars ''rot'' = None")
      case False
      with h pos show ?thesis by (simp add: loop_body_rot)
    next
      case True
      with h pos show ?thesis by (simp add: loop_body_scl)
    qed
  qed
  then show "\<exists>L'. loop_body pf chars L = Inr L' \<and> currentEntity L' = Some e \<and> state L' = state L \<and>
            ents (game L') = ents (game L) \<and> meshes (game L') = meshes (game L) \<and>
            entity_heap (game L')
              = (entity_heap (game L))
                  [e := (entity_heap (game L) ! e)
                     \<lparr>transform := ?f (transform (entity_heap (game L) ! e))\<rparr>]"
    using h on_transform_heap [of ?f e "game L"] by simp
next
  assume h: "loop_body pf chars L = Inr L2 \<and> currentEntity L2 \<noteq> currentEntity L"
  have keep: "currentEntity L2 = currentEntity L"
    if "\<not> (state L = 4 \<and> strstr chars ''arena'' = None \<and> strstr chars ''pos'' = None \<and>
      strstr chars ''rot'' = None \<and> strstr chars ''scl'' = None \<and>
      strstr chars ''model'' \<noteq> None)"
  proof (cases "strstr chars ''arena'' = None")
    case False
    with h loop_body_arena [of chars pf L] show ?thesis by auto
  next
    case arena: True
    show ?thesis
    proof (cases "strstr chars ''pos'' = None")
      case False
      with h arena loop_body_pos [of chars pf L] show ?thesis
        by (auto split: option.splits)
    next
      case pos: True
      show ?thesis
      proof (cases "strstr chars ''rot'' = None")
        case False
        with h arena pos loop_body_rot [of chars pf L] show ?thesis
          by (auto split: option.splits)
      next
        case rot: True
        show ?thesis
        proof (cases "strstr chars ''scl'' = None")
          case False
          with h arena pos rot loop_body_scl [of chars pf L] show ?thesis
            by (auto split: option.splits)
        next
          case True
          with h arena pos rot that loop_body_other [of chars L pf] show ?thesis
            by auto
        qed
      qed
    qed
  qed
  with h show "state L = 4" and "strstr chars ''arena'' = None" and "strstr chars ''pos'' = None"
    and "strstr chars ''rot'' = None" and "strstr chars ''scl'' = None"
    and "strstr chars ''model'' \<noteq> None"
    by blast+
qed


theorem model_line_creates_current_entity_witness:
  "state sample_loader = 4 \<and> strstr ''model cube'' ''arena'' = None \<and>
   strstr ''model cube'' ''pos'' = None \<and> strstr ''model cube'' ''rot'' = None \<and>
   strstr ''model cube'' ''scl'' = None \<and> strstr ''model cube'' ''model'' \<noteq> None \<and>
   6 \<le> length ''model cube'' \<and>
   loop_body sample_platform ''model cube'' sample_loader
     = Inr (create_model sample_platform ''cube'' sample_loader) \<and>
   currentEntity (create_model sample_platform ''cube'' sample_loader) = Some 1 \<and>
   currentEntity (create_model sample_platform ''cube'' sample_loader) \<noteq> currentEntity sample_loader \<and>
   currentEntity sample_loader = Some 0 \<and> strstr ''pos 1 2 3'' ''arena'' = None \<and>
   strstr ''pos 1 2 3'' ''pos'' \<noteq> None \<and>
   (\<exists>L'. loop_body sample_platform ''pos 1 2 3'' sample_loader = Inr L' \<and>
         currentEntity L' = Some 0 \<and>
         position (transform (entity_heap (game L') ! 0))
           = XMFLOAT3 (Val ''1'') (Val ''2'') (Val ''3''))"
proof -
  have scan: "scanned_XMFLOAT3 (snd (sscanf_s scan_digits ''pos 1 2 3'' ''pos''))
      = XMFLOAT3 (Val ''1'') (Val ''2'') (Val ''3'')"
    by code_simp
  have body: "loop_body sample_platform ''model cube'' sample_loader
      = Inr (create_model sample_platform ''cube'' sample_loader)"
    by (simp add: loop_body_model sample_loader_def)
  have cur: "currentEntity (create_model sample_platform ''cube'' sample_loader) = Some 1"
    by (simp add: create_model_fields sample_loader_def sample_game_def)
  show ?thesis
    using model_line_creates_current_entity
        [of sample_loader "''model cube''" sample_platform 0
            "create_model sample_platform ''cube'' sample_loader"]
      model_line_creates_current_entity
        [of sample_loader "''pos 1 2 3''" sample_platform 0 sample_loader]
      body cur scan
    by (auto simp: sample_loader_def sample_game_def sample_platform_def SetPosition_def)
qed


text \<open>
  Claim C6, counterexample. The leading token of the line \<open>a_pos 1 2 3\<close> is \<open>a_pos\<close>,
  which is no keyword, and the line is treated as a \<open>pos\<close> directive: \<open>SetPosition\<close> is
  called on the current entity (with three indeterminate fields, as \<open>sscanf_s\<close> stops at
  the first character), and the position of that entity changes.
\<close>

theorem directive_token_counterexample:
  "leading_token ''a_pos 1 2 3'' = ''a_pos'' \<and>
   loop_body sample_platform ''a_pos 1 2 3'' sample_loader
     = Inr (sample_loader
          \<lparr>game := on_transform (SetPosition (XMFLOAT3 Indeterminate Indeterminate Indeterminate))
                    0 sample_game\<rparr>) \<and>
   position (transform (entity_heap sample_game ! 0))
     = XMFLOAT3 (Val ''0'') (Val ''0'') (Val ''0'') \<and>
   position (transform (entity_heap
       (on_transform (SetPosition (XMFLOAT3 Indeterminate Indeterminate Indeterminate))
          0 sample_game) ! 0))
     = XMFLOAT3 Indeterminate Indeterminate Indeterminate"
  by code_simp

lemma leading_token_sublist: "sublist (leading_token line) line"
proof -
  let ?d = "dropWhile isspace line"
  have "line = takeWhile isspace line @ ?d"
    by simp
  also have "?d = leading_token line @ dropWhile (\<lambda>c. \<not> isspace c) ?d"
    by (simp add: leading_token_def)
  finally have "line = takeWhile isspace line @ leading_token line @ dropWhile (\<lambda>c. \<not> isspace c) ?d" .
  then show ?thesis
    unfolding sublist_def by blast
qed

text \<open>
  Claim C6, amended. Recognition is by line and by substring. A line is treated as \<open>arena\<close>
  when \<open>arena\<close> occurs anywhere in it; otherwise as \<open>pos\<close> when \<open>pos\<close> occurs anywhere in
  it; otherwise as \<open>rot\<close>, and otherwise as \<open>scl\<close>, in the same way; otherwise as \<open>model\<close>
  when \<open>model\<close> occurs anywhere in it and \<open>state\<close> is 4 (the effect is stated for lines of
  at least six characters); every other line is left without effect. The leading token of a
  line occurs in the line, so a line whose leading token is a keyword is treated as that
  directive unless a keyword earlier in this order occurs in it too.
\<close>

theorem directive_recognition:
  "(sublist ''arena'' chars \<longrightarrow> loop_body pf chars L = Inr (L\<lparr>state := 4\<rparr>)) \<and>
   (\<not> sublist ''arena'' chars \<and> sublist ''pos'' chars \<longrightarrow>
      loop_body pf chars L =
        Inr (case currentEntity L of
               Some e \<Rightarrow>
                 L\<lparr>game := on_transform
                     (SetPosition (scanned_XMFLOAT3 (snd (sscanf_s (scan_float pf) chars ''pos''))))
                     e (game L)\<rparr>
             | None \<Rightarrow> L)) \<and>
   (\<not> sublist ''arena'' chars \<and> \<not> sublist ''pos'' chars \<and> sublist ''rot'' chars \<longrightarrow>
      loop_body pf chars L =
        Inr (case currentEntity L of
               Some e \<Rightarrow>
                 L\<lparr>game := on_transform
                     (SetRotation (scanned_XMFLOAT3 (snd (sscanf_s (scan_float pf) chars ''rot''))))
                     e (game L)\<rparr>
             | None \<Rightarrow> L)) \<and>
   (\<not> sublist ''arena'' chars \<and> \<not> sublist ''pos'' chars \<and> \<not> sublist ''rot'' chars \<and>
    sublist ''scl'' chars \<longrightarrow>
      loop_body pf chars L =
        Inr (case currentEntity L of
               Some e \<Rightarrow>
                 L\<lparr>game := on_transform
                     (SetScale (scanned_XMFLOAT3 (snd (sscanf_s (scan_float pf) chars ''scl''))))
                     e (game L)\<rparr>
             | None \<Rightarrow> L)) \<and>
   (\<not> sublist ''arena'' chars \<and> \<not> sublist ''pos'' chars \<and> \<not> sublist ''rot'' chars \<and>
    \<not> sublist ''scl'' chars \<and> sublist ''model'' chars \<and> state L = 4 \<and> 6 \<le> length chars \<longrightarrow>
      loop_body pf chars L = Inr (create_model pf (drop 6 chars) L)) \<and>
   (\<not> sublist ''arena'' chars \<and> \<not> sublist ''pos'' chars \<and> \<not> sublist ''rot'' chars \<and>
    \<not> sublist ''scl'' chars \<and> (\<not> sublist ''model'' chars \<or> state L \<noteq> 4) \<longrightarrow>
      loop_body pf chars L = Inr L) \<and>
   sublist (leading_token chars) chars"
proof -
  have arena: "sublist ''arena'' chars \<longrightarrow> loop_body pf chars L = Inr (L\<lparr>state := 4\<rparr>)"
    by (simp add: loop_body_arena strstr_None_iff)
  have pos: "\<not> sublist ''arena'' chars \<and> sublist ''pos'' chars \<longrightarrow>
      loop_body pf chars L =
        Inr (case currentEntity L of
               Some e \<Rightarrow>
                 L\<lparr>game := on_transform
                     (SetPosition (scanned_XMFLOAT3 (snd (sscanf_s (scan_float pf) chars ''pos''))))
                     e (game L)\<rparr>
             | None \<Rightarrow> L)"
    by (simp add: loop_body_pos strstr_None_iff)
  have rot: "\<not> sublist ''arena'' chars \<and> \<not> sublist ''pos'' chars \<and> sublist ''rot'' chars \<longrightarrow>
      loop_body pf chars L =
        Inr (case currentEntity L of
               Some e \<Rightarrow>
                 L\<lparr>game := on_transform
                     (SetRotation (scanned_XMFLOAT3 (snd (sscanf_s (scan_float pf) chars ''rot''))))
                     e (game L)\<rparr>
             | None \<Rightarrow> L)"
    by (simp add: loop_body_rot strstr_None_iff)
  have scl: "\<not> sublist ''arena'' chars \<and> \<not> sublist ''pos'' chars \<and> \<not> sublist ''rot'' chars \<and>
    sublist ''scl'' chars \<longrightarrow>
      loop_body pf chars L =
        Inr (case currentEntity L of
               Some e \<Rightarrow>
                 L\<lparr>game := on_transform
                     (SetScale (scanned_XMFLOAT3 (snd (sscanf_s (scan_float pf) chars ''scl''))))
                     e (game L)\<rparr>
             | None \<Rightarrow> L)"
    by (simp add: loop_body_scl strstr_None_iff)
  have model: "\<not> sublist ''arena'' chars \<and> \<not> sublist ''pos'' chars \<and> \<not> sublist ''rot'' chars \<and>
    \<not> sublist ''scl'' chars \<and> sublist ''model'' chars \<and> state L = 4 \<and> 6 \<le> length chars \<longrightarrow>
      loop_body pf chars L = Inr (create_model pf (drop 6 chars) L)"
    by (simp add: loop_body_model strstr_None_iff)
  have other: "\<not> sublist ''arena'' chars \<and> \<not> sublist ''pos'' chars \<and> \<not> sublist ''rot'' chars \<and>
    \<not> sublist ''scl'' chars \<and> (\<not> sublist ''model'' chars \<or> state L \<noteq> 4) \<longrightarrow>
      loop_body pf chars L = Inr L"
    using loop_body_other [of chars L pf] by (auto simp: strstr_None_iff)
  from arena pos rot scl model other leading_token_sublist [of chars]
  show ?thesis by blast
qed


theorem directive_recognition_witness:
  "sublist ''arena'' ''arena'' \<and>
   loop_body sample_platform ''arena'' sample_loader = Inr (sample_loader\<lparr>state := 4\<rparr>) \<and>
   \<not> sublist ''arena'' ''a_pos 1 2 3'' \<and> sublist ''pos'' ''a_pos 1 2 3'' \<and>
   loop_body sample_platform ''a_pos 1 2 3'' sample_loader
     = Inr (sample_loader\<lparr>game := on_transform
              (SetPosition (scanned_XMFLOAT3 (snd (sscanf_s scan_digits ''a_pos 1 2 3'' ''pos''))))
              0 sample_game\<rparr>) \<and>
   \<not> sublist ''arena'' ''model rotor'' \<and> \<not> sublist ''pos'' ''model rotor'' \<and>
   sublist ''rot'' ''model rotor'' \<and>
   loop_body sample_platform ''model rotor'' sample_loader
     = Inr (sample_loader\<lparr>game := on_transform
              (SetRotation (scanned_XMFLOAT3 (snd (sscanf_s scan_digits ''model rotor'' ''rot''))))
              0 sample_game\<rparr>) \<and>
   \<not> sublist ''arena'' ''scl 2 2 2'' \<and> \<not> sublist ''pos'' ''scl 2 2 2'' \<and>
   \<not> sublist ''rot'' ''scl 2 2 2'' \<and> sublist ''scl'' ''scl 2 2 2'' \<and>
   loop_body sample_platform ''scl 2 2 2'' sample_loader
     = Inr (sample_loader\<lparr>game := on_transform
              (SetScale (scanned_XMFLOAT3 (snd (sscanf_s scan_digits ''scl 2 2 2'' ''scl''))))
              0 sample_game\<rparr>) \<and>
   \<not> sublist ''arena'' ''model cube'' \<and> \<not> sublist ''pos'' ''model cube'' \<and>
   \<not> sublist ''rot'' ''model cube'' \<and> \<not> sublist ''scl'' ''model cube'' \<and>
   sublist ''model'' ''model cube'' \<and> state sample_loader = 4 \<and> 6 \<le> length ''model cube'' \<and>
   loop_body sample_platform ''model cube'' sample_loader
     = Inr (create_model sample_platform ''cube'' sample_loader) \<and>
   \<not> sublist ''arena'' ''light 1 0 0'' \<and> \<not> sublist ''pos'' ''light 1 0 0'' \<and>
   \<not> sublist ''rot'' ''light 1 0 0'' \<and> \<not> sublist ''scl'' ''light 1 0 0'' \<and>
   \<not> sublist ''model'' ''light 1 0 0'' \<and>
   loop_body sample_platform ''light 1 0 0'' sample_loader = Inr sample_loader"
  using directive_recognition [of "''arena''" sample_platform sample_loader]
    directive_recognition [of "''a_pos 1 2 3''" sample_platform sample_loader]
    directive_recognition [of "''model rotor''" sample_platform sample_loader]
    directive_recognition [of "''scl 2 2 2''" sample_platform sample_loader]
    directive_recognition [of "''model cube''" sample_platform sample_loader]
    directive_recognition [of "''light 1 0 0''" sample_platform sample_loader]
  by (simp add: sublist_code sample_loader_def sample_platform_def)

end
